theory Spec2Isabelle
  imports Main "HOL-Library.Word"
begin

section \<open>The AnsibleTest controller: parameter resolution\<close>

text \<open>
  A shallow embedding of \<^verbatim>\<open>controllers/ansibletest_controller.go\<close>. Go's \<^verbatim>\<open>int\<close> is
  modelled by \<^typ>\<open>int\<close>: the controller compares step numbers and indexes with them,
  and its only arithmetic is \<^verbatim>\<open>len(instance.Workflow)-1\<close>, which cannot wrap around.
\<close>

subsection \<open>The specification structs\<close>

text \<open>
  Modelled from the spec: the declarations of \<^verbatim>\<open>AnsibleTestSpec\<close> and
  \<^verbatim>\<open>AnsibleTestWorkflowSpec\<close> (package \<^verbatim>\<open>api/v1beta1\<close>) are not part of the controller
  file. The records carry the fields the controller reads; their types are the ones the
  controller's type assertions and dereferences fix: a workflow step holds strings as plain
  strings, booleans as \<^verbatim>\<open>*bool\<close>, and the placement and resource fields as pointers
  (\<open>None\<close> is the nil pointer). Values of the Kubernetes API types (node selector,
  tolerations, SELinux level, resource requirements) stay abstract in the parameter \<open>'k\<close>.
\<close>

record 'k AnsibleTestWorkflowSpec =
  wf_WorkloadSSHKeySecretName :: string
  wf_ComputesSSHKeySecretName :: string
  wf_ContainerImage :: string
  wf_Debug :: "bool option"
  wf_AnsibleExtraVars :: string
  wf_AnsibleVarFiles :: string
  wf_AnsibleInventory :: string
  wf_AnsibleGitRepo :: string
  wf_AnsiblePlaybookPath :: string
  wf_AnsibleCollections :: string
  wf_Privileged :: "bool option"
  wf_NodeSelector :: "'k option"
  wf_Tolerations :: "'k option"
  wf_SELinuxLevel :: "'k option"
  wf_Resources :: "'k option"

record 'k AnsibleTestSpec =
  WorkloadSSHKeySecretName :: string
  ComputesSSHKeySecretName :: string
  ContainerImage :: string
  Debug :: bool
  AnsibleExtraVars :: string
  AnsibleVarFiles :: string
  AnsibleInventory :: string
  AnsibleGitRepo :: string
  AnsiblePlaybookPath :: string
  AnsibleCollections :: string
  Privileged :: bool
  StorageClass :: string
  NodeSelector :: 'k
  Tolerations :: 'k
  SELinuxLevel :: 'k
  Resources :: 'k
  Workflow :: "'k AnsibleTestWorkflowSpec list"

subsection \<open>Dynamic values and reflection\<close>

text \<open>
  A value of Go's \<^verbatim>\<open>interface{}\<close>: the dynamic type is the constructor. \<open>GNil\<close> is the
  nil interface, \<open>GPBool None\<close> a nil \<^verbatim>\<open>*bool\<close>.
\<close>

datatype 'k gvalue =
    GString string
  | GBool bool
  | GPBool "bool option"
  | GUint8 "8 word"
  | GPUint8 "8 word option"
  | GK8s 'k
  | GPK8s "'k option"
  | GWorkflow "'k AnsibleTestWorkflowSpec list"
  | GNil

text \<open>
  How a call can panic: \<^verbatim>\<open>Interface()\<close> on the zero \<^verbatim>\<open>reflect.Value\<close> (no field of
  that name), an index out of range, a failed type assertion.
\<close>

datatype panic = ZeroValueInterface | IndexOutOfRange | InterfaceConversion


definition FieldByName_Spec :: "'k AnsibleTestSpec \<Rightarrow> string \<Rightarrow> 'k gvalue option" where
  "FieldByName_Spec instance sectionName =
     (if sectionName = ''WorkloadSSHKeySecretName'' then Some (GString (WorkloadSSHKeySecretName instance))
      else if sectionName = ''ComputesSSHKeySecretName'' then Some (GString (ComputesSSHKeySecretName instance))
      else if sectionName = ''ContainerImage'' then Some (GString (ContainerImage instance))
      else if sectionName = ''Debug'' then Some (GBool (Debug instance))
      else if sectionName = ''AnsibleExtraVars'' then Some (GString (AnsibleExtraVars instance))
      else if sectionName = ''AnsibleVarFiles'' then Some (GString (AnsibleVarFiles instance))
      else if sectionName = ''AnsibleInventory'' then Some (GString (AnsibleInventory instance))
      else if sectionName = ''AnsibleGitRepo'' then Some (GString (AnsibleGitRepo instance))
      else if sectionName = ''AnsiblePlaybookPath'' then Some (GString (AnsiblePlaybookPath instance))
      else if sectionName = ''AnsibleCollections'' then Some (GString (AnsibleCollections instance))
      else if sectionName = ''Privileged'' then Some (GBool (Privileged instance))
      else if sectionName = ''StorageClass'' then Some (GString (StorageClass instance))
      else if sectionName = ''NodeSelector'' then Some (GK8s (NodeSelector instance))
      else if sectionName = ''Tolerations'' then Some (GK8s (Tolerations instance))
      else if sectionName = ''SELinuxLevel'' then Some (GK8s (SELinuxLevel instance))
      else if sectionName = ''Resources'' then Some (GK8s (Resources instance))
      else if sectionName = ''Workflow'' then Some (GWorkflow (Workflow instance))
      else None)"

definition FieldByName_Workflow ::
  "'k AnsibleTestWorkflowSpec \<Rightarrow> string \<Rightarrow> 'k gvalue option" where
  "FieldByName_Workflow step sectionName =
     (if sectionName = ''WorkloadSSHKeySecretName'' then Some (GString (wf_WorkloadSSHKeySecretName step))
      else if sectionName = ''ComputesSSHKeySecretName'' then Some (GString (wf_ComputesSSHKeySecretName step))
      else if sectionName = ''ContainerImage'' then Some (GString (wf_ContainerImage step))
      else if sectionName = ''Debug'' then Some (GPBool (wf_Debug step))
      else if sectionName = ''AnsibleExtraVars'' then Some (GString (wf_AnsibleExtraVars step))
      else if sectionName = ''AnsibleVarFiles'' then Some (GString (wf_AnsibleVarFiles step))
      else if sectionName = ''AnsibleInventory'' then Some (GString (wf_AnsibleInventory step))
      else if sectionName = ''AnsibleGitRepo'' then Some (GString (wf_AnsibleGitRepo step))
      else if sectionName = ''AnsiblePlaybookPath'' then Some (GString (wf_AnsiblePlaybookPath step))
      else if sectionName = ''AnsibleCollections'' then Some (GString (wf_AnsibleCollections step))
      else if sectionName = ''Privileged'' then Some (GPBool (wf_Privileged step))
      else if sectionName = ''NodeSelector'' then Some (GPK8s (wf_NodeSelector step))
      else if sectionName = ''Tolerations'' then Some (GPK8s (wf_Tolerations step))
      else if sectionName = ''SELinuxLevel'' then Some (GPK8s (wf_SELinuxLevel step))
      else if sectionName = ''Resources'' then Some (GPK8s (wf_Resources step))
      else None)"



subsection \<open>OverwriteAnsibleWithWorkflow\<close>

text \<open>
  The resolver. When the step number is past the last workflow step, the base field is
  returned whatever the type tag. Otherwise the base field is read first, then the step
  (a negative index panics), then the step's field; an unknown type tag falls through to
  \<^verbatim>\<open>return nil\<close>.
\<close>

definition OverwriteAnsibleWithWorkflow ::
  "'k AnsibleTestSpec \<Rightarrow> string \<Rightarrow> string \<Rightarrow> int \<Rightarrow> panic + 'k gvalue" where
  "OverwriteAnsibleWithWorkflow instance sectionName workflowValueType workflowStepNum =
     (if int (length (Workflow instance)) - 1 < workflowStepNum then
        (case FieldByName_Spec instance sectionName of
           None \<Rightarrow> Inl ZeroValueInterface
         | Some fieldValue \<Rightarrow> Inr fieldValue)
      else
        (case FieldByName_Spec instance sectionName of
           None \<Rightarrow> Inl ZeroValueInterface
         | Some SpecValue \<Rightarrow>
             if workflowStepNum < 0 then Inl IndexOutOfRange
             else
               (case FieldByName_Workflow (Workflow instance ! nat workflowStepNum) sectionName of
                  None \<Rightarrow> Inl ZeroValueInterface
                | Some WorkflowValue \<Rightarrow>
                    if workflowValueType = ''pbool'' then
                      (case WorkflowValue of
                         GPBool (Some val) \<Rightarrow> Inr (GBool val)
                       | _ \<Rightarrow>
                           (case SpecValue of
                              GBool b \<Rightarrow> Inr (GBool b)
                            | _ \<Rightarrow> Inl InterfaceConversion))
                    else if workflowValueType = ''puint8'' then
                      (case WorkflowValue of
                         GPUint8 (Some val) \<Rightarrow> Inr (GUint8 val)
                       | _ \<Rightarrow> Inr SpecValue)
                    else if workflowValueType = ''string'' then
                      (case WorkflowValue of
                         GString val \<Rightarrow> if val \<noteq> [] then Inr WorkflowValue else Inr SpecValue
                       | _ \<Rightarrow> Inr SpecValue)
                    else Inr GNil)))"

text \<open>The callers' type assertions \<^verbatim>\<open>.(string)\<close> and \<^verbatim>\<open>.(bool)\<close>.\<close>

definition assert_string :: "panic + 'k gvalue \<Rightarrow> panic + string" where
  "assert_string r =
     (case r of Inl p \<Rightarrow> Inl p | Inr (GString s) \<Rightarrow> Inr s | Inr _ \<Rightarrow> Inl InterfaceConversion)"

definition assert_bool :: "panic + 'k gvalue \<Rightarrow> panic + bool" where
  "assert_bool r =
     (case r of Inl p \<Rightarrow> Inl p | Inr (GBool b) \<Rightarrow> Inr b | Inr _ \<Rightarrow> Inl InterfaceConversion)"

subsection \<open>The instance and its status conditions\<close>

text \<open>
  Modelled from the spec: the condition package (\<^verbatim>\<open>lib-common/modules/common/condition\<close>)
  is an external module, so the condition type, its constructors and every operation on a
  condition list below (\<^verbatim>\<open>Get\<close>, \<^verbatim>\<open>Set\<close>, \<^verbatim>\<open>MarkTrue\<close>, \<^verbatim>\<open>Init\<close>,
  \<^verbatim>\<open>AllSubConditionIsTrue\<close>, \<^verbatim>\<open>IsUnknown\<close>, \<^verbatim>\<open>Mirror\<close>,
  \<^verbatim>\<open>RestoreLastTransitionTimes\<close>) follow sections 3, 4.1 and 8 of the spec. A condition
  is a named status flag with severity, reason, message and time of last transition; the
  tracked conditions are Ready, ServiceConfigReady and DeploymentReady. A message constant
  stands for its text; the error message format carries the error it is applied to.
\<close>

datatype error = ApiError string | ErrReceivedUnexpectedAction

datatype ConditionType = ReadyCondition | ServiceConfigReadyCondition | DeploymentReadyCondition

datatype ConditionStatus = ConditionTrue | ConditionFalse | ConditionUnknown

datatype ConditionSeverity = SeverityNone | SeverityInfo | SeverityWarning | SeverityError

datatype ConditionReason = InitReason | ReadyReason | ErrorReason | RequestedReason

datatype ConditionMessage =
    ReadyInitMessage
  | ReadyMessage
  | ServiceConfigReadyMessage
  | DeploymentReadyInitMessage
  | DeploymentReadyMessage
  | DeploymentReadyErrorMessage error
  | DeploymentReadyRunningMessage

record Condition =
  Type :: ConditionType
  Status :: ConditionStatus
  Severity :: ConditionSeverity
  Reason :: ConditionReason
  Message :: ConditionMessage
  LastTransitionTime :: nat

definition UnknownCondition ::
  "ConditionType \<Rightarrow> ConditionReason \<Rightarrow> ConditionMessage \<Rightarrow> Condition" where
  "UnknownCondition t r m =
     \<lparr>Type = t, Status = ConditionUnknown, Severity = SeverityNone, Reason = r, Message = m,
      LastTransitionTime = 0\<rparr>"

definition TrueCondition :: "ConditionType \<Rightarrow> ConditionMessage \<Rightarrow> Condition" where
  "TrueCondition t m =
     \<lparr>Type = t, Status = ConditionTrue, Severity = SeverityNone, Reason = ReadyReason,
      Message = m, LastTransitionTime = 0\<rparr>"

definition FalseCondition ::
  "ConditionType \<Rightarrow> ConditionReason \<Rightarrow> ConditionSeverity \<Rightarrow> ConditionMessage \<Rightarrow> Condition" where
  "FalseCondition t r sev m =
     \<lparr>Type = t, Status = ConditionFalse, Severity = sev, Reason = r, Message = m,
      LastTransitionTime = 0\<rparr>"

definition Get :: "Condition list \<Rightarrow> ConditionType \<Rightarrow> Condition option" where
  "Get conditions t = find (\<lambda>c. Type c = t) conditions"

text \<open>
  Modelled from the spec: \<^verbatim>\<open>Set\<close> replaces the condition of the same type or appends
  the new one. A condition's time of last transition changes only when its status value
  changes (spec, section 8); a new condition is stamped with the current time.
\<close>

definition stamp :: "nat \<Rightarrow> Condition \<Rightarrow> Condition \<Rightarrow> Condition" where
  "stamp now existing c =
     (if Status existing = Status c
      then c\<lparr>LastTransitionTime := LastTransitionTime existing\<rparr>
      else c\<lparr>LastTransitionTime := now\<rparr>)"

definition Set :: "nat \<Rightarrow> Condition \<Rightarrow> Condition list \<Rightarrow> Condition list" where
  "Set now c conditions =
     (case Get conditions (Type c) of
        None \<Rightarrow> conditions @ [c\<lparr>LastTransitionTime := now\<rparr>]
      | Some _ \<Rightarrow> map (\<lambda>existing. if Type existing = Type c then stamp now existing c else existing) conditions)"

definition MarkTrue ::
  "nat \<Rightarrow> ConditionType \<Rightarrow> ConditionMessage \<Rightarrow> Condition list \<Rightarrow> Condition list" where
  "MarkTrue now t m conditions = Set now (TrueCondition t m) conditions"

definition Init :: "nat \<Rightarrow> Condition list \<Rightarrow> Condition list \<Rightarrow> Condition list" where
  "Init now cl conditions = foldl (\<lambda>acc c. Set now c acc) conditions cl"

text \<open>
  Modelled from the spec: Ready is promoted when every other tracked condition is True;
  the first sub-condition that is not True is mirrored onto Ready; the time of last
  transition of a condition is restored from the snapshot when its status value did not
  change (spec, section 4.1).
\<close>

definition AllSubConditionIsTrue :: "Condition list \<Rightarrow> bool" where
  "AllSubConditionIsTrue conditions =
     list_all (\<lambda>c. Type c = ReadyCondition \<or> Status c = ConditionTrue) conditions"

definition IsUnknown :: "Condition list \<Rightarrow> ConditionType \<Rightarrow> bool" where
  "IsUnknown conditions t =
     (case Get conditions t of None \<Rightarrow> True | Some c \<Rightarrow> Status c = ConditionUnknown)"

definition first_not_ready :: "Condition list \<Rightarrow> ConditionType \<Rightarrow> Condition option" where
  "first_not_ready conditions t = find (\<lambda>c. Type c \<noteq> t \<and> Status c \<noteq> ConditionTrue) conditions"

definition Mirror :: "Condition list \<Rightarrow> ConditionType \<Rightarrow> Condition option" where
  "Mirror conditions t =
     (case first_not_ready conditions t of
        None \<Rightarrow> None
      | Some c \<Rightarrow>
          Some \<lparr>Type = t, Status = Status c, Severity = Severity c, Reason = Reason c,
                Message = Message c, LastTransitionTime = 0\<rparr>)"

definition restore_time :: "Condition list \<Rightarrow> Condition \<Rightarrow> Condition" where
  "restore_time savedConditions cond =
     (case Get savedConditions (Type cond) of
        None \<Rightarrow> cond
      | Some savedCond \<Rightarrow>
          if Status savedCond = Status cond
          then cond\<lparr>LastTransitionTime := LastTransitionTime savedCond\<rparr>
          else cond)"

definition RestoreLastTransitionTimes :: "Condition list \<Rightarrow> Condition list \<Rightarrow> Condition list" where
  "RestoreLastTransitionTimes conditions savedConditions =
     map (restore_time savedConditions) conditions"

text \<open>
  The instance: its name, its spec and \<^verbatim>\<open>Status.Conditions\<close>, where \<open>None\<close> is the nil
  slice of an instance never reconciled before. A nil slice reads as the empty list.
\<close>

record 'k AnsibleTest =
  Name :: string
  Spec :: "'k AnsibleTestSpec"
  Conditions :: "Condition list option"

definition conditions_of :: "'k AnsibleTest \<Rightarrow> Condition list" where
  "conditions_of instance = (case Conditions instance of None \<Rightarrow> [] | Some cs \<Rightarrow> cs)"

definition with_conditions ::
  "(Condition list \<Rightarrow> Condition list) \<Rightarrow> 'k AnsibleTest \<Rightarrow> 'k AnsibleTest" where
  "with_conditions f instance = instance\<lparr>Conditions := Some (f (conditions_of instance))\<rparr>"

subsection \<open>PrepareAnsibleEnv\<close>

definition bind_panic :: "panic + 'a \<Rightarrow> ('a \<Rightarrow> panic + 'b) \<Rightarrow> panic + 'b" where
  "bind_panic r f = (case r of Inl p \<Rightarrow> Inl p | Inr x \<Rightarrow> f x)"

text \<open>
  The environment of one workflow step: the variables of the pod and the overridden
  parameters, both as maps from names to values (\<^verbatim>\<open>env.SetValue v\<close> is the value
  \<open>v\<close>). Every resolver call is followed by its type assertion.
\<close>

definition PrepareAnsibleEnv ::
  "'k AnsibleTest \<Rightarrow> int \<Rightarrow> panic + ((string \<rightharpoonup> string) \<times> (string \<rightharpoonup> string))" where
  "PrepareAnsibleEnv instance step =
     bind_panic (assert_string (OverwriteAnsibleWithWorkflow (Spec instance) ''WorkloadSSHKeySecretName'' ''string'' step)) (\<lambda>workload.
     bind_panic (assert_string (OverwriteAnsibleWithWorkflow (Spec instance) ''ComputesSSHKeySecretName'' ''string'' step)) (\<lambda>computes.
     bind_panic (assert_string (OverwriteAnsibleWithWorkflow (Spec instance) ''ContainerImage'' ''string'' step)) (\<lambda>image.
     bind_panic (assert_bool (OverwriteAnsibleWithWorkflow (Spec instance) ''Debug'' ''pbool'' step)) (\<lambda>debug.
     bind_panic (assert_string (OverwriteAnsibleWithWorkflow (Spec instance) ''AnsibleExtraVars'' ''string'' step)) (\<lambda>extraVars.
     bind_panic (assert_string (OverwriteAnsibleWithWorkflow (Spec instance) ''AnsibleVarFiles'' ''string'' step)) (\<lambda>extraVarsFile.
     bind_panic (assert_string (OverwriteAnsibleWithWorkflow (Spec instance) ''AnsibleInventory'' ''string'' step)) (\<lambda>inventory.
     bind_panic (assert_string (OverwriteAnsibleWithWorkflow (Spec instance) ''AnsibleGitRepo'' ''string'' step)) (\<lambda>gitRepo.
     bind_panic (assert_string (OverwriteAnsibleWithWorkflow (Spec instance) ''AnsiblePlaybookPath'' ''string'' step)) (\<lambda>playbookPath.
     bind_panic (assert_string (OverwriteAnsibleWithWorkflow (Spec instance) ''AnsibleCollections'' ''string'' step)) (\<lambda>ansibleCollections.
       Inr ((if debug then [''POD_DEBUG'' \<mapsto> ''true''] else Map.empty)
              (''POD_ANSIBLE_EXTRA_VARS'' \<mapsto> extraVars,
               ''POD_ANSIBLE_FILE_EXTRA_VARS'' \<mapsto> extraVarsFile,
               ''POD_ANSIBLE_INVENTORY'' \<mapsto> inventory,
               ''POD_ANSIBLE_GIT_REPO'' \<mapsto> gitRepo,
               ''POD_ANSIBLE_PLAYBOOK'' \<mapsto> playbookPath,
               ''POD_INSTALL_COLLECTIONS'' \<mapsto> ansibleCollections),
            [''WorkloadSSHKeySecretName'' \<mapsto> workload,
             ''ComputesSSHKeySecretName'' \<mapsto> computes,
             ''ContainerImage'' \<mapsto> image])))))))))))"

section \<open>The reconciliation driver\<close>

subsection \<open>The cluster as the driver sees it\<close>

datatype FlowAction = Wait | CreateFirstPod | CreateNextPod | EndTesting | Failure | OtherAction

record ctrl_Result =
  Requeue :: bool
  RequeueAfter :: nat

definition Result_empty :: ctrl_Result where
  "Result_empty = \<lparr>Requeue = False, RequeueAfter = 0\<rparr>"

datatype 'k get_result = Found "'k AnsibleTest" | NotFound | GetFailed error

text \<open>
  The helpers of the shared \<^verbatim>\<open>Reconciler\<close> and of the client are not part of the
  controller file. Each is called at most once in an invocation, so what it returns there
  is a parameter: the record below holds, for one invocation, the answer of every helper,
  the clock, the owner of the lock before the call (\<open>None\<close>: unlocked) and the constant
  \<^verbatim>\<open>RequeueAfterValue\<close>.
\<close>

record 'k cluster =
  Client_Get :: "'k get_result"
  NewHelper_ret :: "error option"
  Now :: nat
  NextAction_ret :: "FlowAction \<times> int \<times> error option"
  Lock :: "string option"
  AcquireLock_ret :: "bool \<times> error option"
  ReleaseLock_ret :: "bool \<times> error option"
  EnsureLogsPVCExists_ret :: "ctrl_Result \<times> error option"
  CheckSecretExists_ret :: bool
  GetPodName_ret :: string
  GetPVCLogsName_ret :: string
  GetContainerImage_ret :: "string \<times> error option"
  CreatePod_ret :: "ctrl_Result \<times> error option"
  PatchInstance_ret :: "error option"
  RequeueAfterValue :: nat

text \<open>
  Modelled from the spec: \<^verbatim>\<open>AcquireLock\<close> and \<^verbatim>\<open>ReleaseLock\<close> are methods of the
  shared \<^verbatim>\<open>Reconciler\<close>, outside the controller file. What they report is the cluster's
  answer; of their effect only the contract of section 4.3 is kept: a lock reported
  acquired is owned by the caller afterwards, a lock reported released is absent
  afterwards, and the lock record is untouched otherwise.
\<close>

definition AcquireLock ::
  "'k cluster \<Rightarrow> string option \<Rightarrow> 'k AnsibleTest \<Rightarrow> (bool \<times> error option) \<times> string option" where
  "AcquireLock c lock instance =
     (AcquireLock_ret c, if fst (AcquireLock_ret c) then Some (Name instance) else lock)"

definition ReleaseLock ::
  "'k cluster \<Rightarrow> string option \<Rightarrow> 'k AnsibleTest \<Rightarrow> (bool \<times> error option) \<times> string option" where
  "ReleaseLock c lock instance =
     (ReleaseLock_ret c, if fst (ReleaseLock_ret c) then None else lock)"

subsection \<open>What an invocation leaves behind\<close>

datatype LogLine =
    InfoWaitingOnPod
  | InfoCanNotReleaseLock
  | InfoTestingCompleted
  | InfoCanNotAcquireLock
  | InfoCreatingFirstPod int
  | InfoCreatingNextPod int
  | ErrConfirmLockOwnership
  | ReconciledServiceSuccessfully

datatype LabelKey = AppSelector | workflowStepLabel | instanceNameLabel | operatorNameLabel

datatype LabelValue = ServiceName | Itoa int | LabelText string

text \<open>The arguments of \<^verbatim>\<open>ansibletest.Pod\<close>: the pod definition is built from them.\<close>

record 'k PodArgs =
  pod_instance :: "'k AnsibleTest"
  pod_labels :: "(LabelKey \<times> LabelValue) list"
  pod_podName :: string
  pod_logsPVCName :: string
  pod_mountCerts :: bool
  pod_envVars :: "string \<rightharpoonup> string"
  pod_workflowOverrideParams :: "string \<rightharpoonup> string"
  pod_workflowStepNum :: int
  pod_containerImage :: string
  pod_privileged :: bool

text \<open>
  The calls that change the cluster and the log lines, in the order the invocation makes
  them.
\<close>

datatype 'k event =
    LogInfo LogLine
  | LogError "error option" LogLine
  | CallAcquireLock
  | CallReleaseLock
  | CallEnsureLogsPVCExists "(LabelKey \<times> LabelValue) list" string
  | CallCreatePod "'k PodArgs"
  | CallPatchInstance "'k AnsibleTest"

text \<open>
  The state at an exit: the returned result and error, a panic if one is on its way up,
  the instance in memory (\<open>None\<close> when none was fetched), the owner of the lock, and the
  events so far.
\<close>

record 'k exit_state =
  ex_result :: ctrl_Result
  ex_err :: "error option"
  ex_panic :: "panic option"
  ex_instance :: "'k AnsibleTest option"
  ex_lock :: "string option"
  ex_events :: "'k event list"

definition exit_with ::
  "ctrl_Result \<Rightarrow> error option \<Rightarrow> 'k AnsibleTest \<Rightarrow> string option \<Rightarrow> 'k event list \<Rightarrow> 'k exit_state" where
  "exit_with res e instance lock evs =
     \<lparr>ex_result = res, ex_err = e, ex_panic = None, ex_instance = Some instance,
      ex_lock = lock, ex_events = evs\<rparr>"

definition panic_with ::
  "panic \<Rightarrow> 'k AnsibleTest \<Rightarrow> string option \<Rightarrow> 'k event list \<Rightarrow> 'k exit_state" where
  "panic_with p instance lock evs =
     \<lparr>ex_result = Result_empty, ex_err = None, ex_panic = Some p, ex_instance = Some instance,
      ex_lock = lock, ex_events = evs\<rparr>"

subsection \<open>Reconcile\<close>

text \<open>
  The in-place overwrite of the placement and resource fields of \<^verbatim>\<open>instance.Spec\<close> by
  the target step, when the step exists.
\<close>

definition overwrite_placement :: "'k AnsibleTestSpec \<Rightarrow> int \<Rightarrow> panic + 'k AnsibleTestSpec" where
  "overwrite_placement spec nextWorkflowStep =
     (if nextWorkflowStep < int (length (Workflow spec)) then
        if nextWorkflowStep < 0 then Inl IndexOutOfRange
        else
          (let step = Workflow spec ! nat nextWorkflowStep;
               spec1 = (case wf_NodeSelector step of None \<Rightarrow> spec | Some v \<Rightarrow> spec\<lparr>NodeSelector := v\<rparr>);
               spec2 = (case wf_Tolerations step of None \<Rightarrow> spec1 | Some v \<Rightarrow> spec1\<lparr>Tolerations := v\<rparr>);
               spec3 = (case wf_SELinuxLevel step of None \<Rightarrow> spec2 | Some v \<Rightarrow> spec2\<lparr>SELinuxLevel := v\<rparr>);
               spec4 = (case wf_Resources step of None \<Rightarrow> spec3 | Some v \<Rightarrow> spec3\<lparr>Resources := v\<rparr>)
           in Inr spec4)
      else Inr spec)"

text \<open>Pod submission and what follows it, the last part of the function.\<close>

definition Reconcile_submit ::
  "'k cluster \<Rightarrow> 'k AnsibleTest \<Rightarrow> string option \<Rightarrow> 'k event list \<Rightarrow> 'k PodArgs \<Rightarrow> 'k exit_state" where
  "Reconcile_submit c instance lock evs podDef =
     (case CreatePod_ret c of
        (ctrlResult, Some err) \<Rightarrow>
          (case ReleaseLock c lock instance of
             ((lockReleased, err'), lock') \<Rightarrow>
               if \<not> lockReleased then
                 exit_with Result_empty err' instance lock' (evs @ [CallCreatePod podDef, CallReleaseLock])
               else
                 exit_with ctrlResult (Some err)
                   (with_conditions
                      (Set (Now c)
                         (FalseCondition DeploymentReadyCondition ErrorReason SeverityWarning
                            (DeploymentReadyErrorMessage err)))
                      instance)
                   lock' (evs @ [CallCreatePod podDef, CallReleaseLock]))
      | (ctrlResult, None) \<Rightarrow>
          if ctrlResult \<noteq> Result_empty then
            exit_with ctrlResult None
              (with_conditions
                 (Set (Now c)
                    (FalseCondition DeploymentReadyCondition RequestedReason SeverityInfo
                       DeploymentReadyRunningMessage))
                 instance)
              lock (evs @ [CallCreatePod podDef])
          else
            exit_with Result_empty None instance lock
              (evs @ [CallCreatePod podDef, LogInfo ReconciledServiceSuccessfully]))"

text \<open>
  The part after the switch, reached with the lock held: the logs volume claim, the
  effective parameters of the step, the overwrite of the placement fields, the pod.
\<close>

definition Reconcile_create ::
  "'k cluster \<Rightarrow> 'k AnsibleTest \<Rightarrow> int \<Rightarrow> string option \<Rightarrow> 'k event list \<Rightarrow> 'k exit_state" where
  "Reconcile_create c instance nextWorkflowStep lock evs0 =
     (let serviceLabels =
            [(AppSelector, ServiceName), (workflowStepLabel, Itoa nextWorkflowStep),
             (instanceNameLabel, LabelText (Name instance)),
             (operatorNameLabel, LabelText ''test-operator'')];
          evs = evs0 @ [CallEnsureLogsPVCExists serviceLabels (StorageClass (Spec instance))]
      in
        case EnsureLogsPVCExists_ret c of
          (ctrlResult, Some err) \<Rightarrow> exit_with ctrlResult (Some err) instance lock evs
        | (ctrlResult, None) \<Rightarrow>
            if ctrlResult \<noteq> Result_empty then exit_with ctrlResult None instance lock evs
            else
              (let instance1 =
                     with_conditions
                       (MarkTrue (Now c) ServiceConfigReadyCondition ServiceConfigReadyMessage)
                       instance;
                   mountCerts = CheckSecretExists_ret c;
                   podName = GetPodName_ret c
               in
                 case PrepareAnsibleEnv instance1 nextWorkflowStep of
                   Inl p \<Rightarrow> panic_with p instance1 lock evs
                 | Inr (envVars, workflowOverrideParams) \<Rightarrow>
                     (let logsPVCName = GetPVCLogsName_ret c in
                        case GetContainerImage_ret c of
                          (containerImage, err) \<Rightarrow>
                            (case assert_bool
                                    (OverwriteAnsibleWithWorkflow (Spec instance1) ''Privileged''
                                       ''pbool'' nextWorkflowStep) of
                               Inl p \<Rightarrow> panic_with p instance1 lock evs
                             | Inr privileged \<Rightarrow>
                                 (case err of
                                    Some e \<Rightarrow> exit_with Result_empty (Some e) instance1 lock evs
                                  | None \<Rightarrow>
                                      (case overwrite_placement (Spec instance1) nextWorkflowStep of
                                         Inl p \<Rightarrow> panic_with p instance1 lock evs
                                       | Inr spec' \<Rightarrow>
                                           (let instance2 = instance1\<lparr>Spec := spec'\<rparr>;
                                                podDef =
                                                  \<lparr>pod_instance = instance2,
                                                   pod_labels = serviceLabels,
                                                   pod_podName = podName,
                                                   pod_logsPVCName = logsPVCName,
                                                   pod_mountCerts = mountCerts,
                                                   pod_envVars = envVars,
                                                   pod_workflowOverrideParams = workflowOverrideParams,
                                                   pod_workflowStepNum = nextWorkflowStep,
                                                   pod_containerImage = containerImage,
                                                   pod_privileged = privileged\<rparr>
                                            in Reconcile_submit c instance2 lock evs podDef)))))))"

text \<open>The body between the registration of the deferred function and the exits.\<close>

definition Reconcile_body :: "'k cluster \<Rightarrow> 'k AnsibleTest \<Rightarrow> bool \<Rightarrow> 'k exit_state" where
  "Reconcile_body c instance isNewInstance =
     (if isNewInstance then
        (let cl =
               [UnknownCondition ReadyCondition InitReason ReadyInitMessage,
                UnknownCondition ServiceConfigReadyCondition InitReason ServiceConfigReadyMessage,
                UnknownCondition DeploymentReadyCondition InitReason DeploymentReadyInitMessage]
         in exit_with Result_empty None (with_conditions (Init (Now c) cl) instance) (Lock c) [])
      else
        (case NextAction_ret c of
           (nextAction, nextWorkflowStep, err) \<Rightarrow>
             (case nextAction of
                Failure \<Rightarrow> exit_with Result_empty err instance (Lock c) []
              | Wait \<Rightarrow>
                  exit_with \<lparr>Requeue = False, RequeueAfter = RequeueAfterValue c\<rparr> None instance
                    (Lock c) [LogInfo InfoWaitingOnPod]
              | EndTesting \<Rightarrow>
                  (case ReleaseLock c (Lock c) instance of
                     ((lockReleased, err'), lock') \<Rightarrow>
                       if \<not> lockReleased then
                         exit_with \<lparr>Requeue = False, RequeueAfter = RequeueAfterValue c\<rparr> err'
                           instance lock' [CallReleaseLock, LogInfo InfoCanNotReleaseLock]
                       else
                         exit_with Result_empty None
                           (with_conditions
                              (MarkTrue (Now c) DeploymentReadyCondition DeploymentReadyMessage)
                              instance)
                           lock' [CallReleaseLock, LogInfo InfoTestingCompleted])
              | CreateFirstPod \<Rightarrow>
                  (case AcquireLock c (Lock c) instance of
                     ((lockAcquired, err'), lock') \<Rightarrow>
                       if \<not> lockAcquired then
                         exit_with \<lparr>Requeue = False, RequeueAfter = RequeueAfterValue c\<rparr> err'
                           instance lock' [CallAcquireLock, LogInfo InfoCanNotAcquireLock]
                       else
                         Reconcile_create c instance nextWorkflowStep lock'
                           [CallAcquireLock, LogInfo (InfoCreatingFirstPod nextWorkflowStep)])
              | CreateNextPod \<Rightarrow>
                  (case AcquireLock c (Lock c) instance of
                     ((lockAcquired, err'), lock') \<Rightarrow>
                       if \<not> lockAcquired then
                         exit_with \<lparr>Requeue = False, RequeueAfter = RequeueAfterValue c\<rparr> err'
                           instance lock' [CallAcquireLock, LogError err' ErrConfirmLockOwnership]
                       else
                         Reconcile_create c instance nextWorkflowStep lock'
                           [CallAcquireLock, LogInfo (InfoCreatingNextPod nextWorkflowStep)])
              | OtherAction \<Rightarrow>
                  exit_with Result_empty (Some ErrReceivedUnexpectedAction) instance (Lock c) [])))"

text \<open>
  The deferred function: it runs at every exit of the body, also when the body panics.
  It promotes Ready, restores the times of last transition from the snapshot, mirrors onto
  Ready while Ready is Unknown (\<^verbatim>\<open>Set\<close> ignores a nil condition), patches the instance,
  and replaces the returned error by the error of the patch if there is one.
\<close>

definition deferred_conditions :: "nat \<Rightarrow> Condition list \<Rightarrow> Condition list \<Rightarrow> Condition list" where
  "deferred_conditions now savedConditions conditions =
     (let cs1 = (if AllSubConditionIsTrue conditions
                 then MarkTrue now ReadyCondition ReadyMessage conditions else conditions);
          cs2 = RestoreLastTransitionTimes cs1 savedConditions
      in if IsUnknown cs2 ReadyCondition
         then (case Mirror cs2 ReadyCondition of None \<Rightarrow> cs2 | Some m \<Rightarrow> Set now m cs2)
         else cs2)"

definition Reconcile_deferred ::
  "'k cluster \<Rightarrow> Condition list \<Rightarrow> 'k exit_state \<Rightarrow> 'k exit_state" where
  "Reconcile_deferred c savedConditions ex =
     (case ex_instance ex of
        None \<Rightarrow> ex
      | Some instance \<Rightarrow>
          (let instance' = with_conditions (deferred_conditions (Now c) savedConditions) instance
           in ex\<lparr>ex_instance := Some instance',
                 ex_events := ex_events ex @ [CallPatchInstance instance'],
                 ex_err := (case PatchInstance_ret c of Some e \<Rightarrow> Some e | None \<Rightarrow> ex_err ex)\<rparr>))"

text \<open>
  The function itself. The three exits before the deferred function is registered (the
  instance is not found, the fetch fails, the helper cannot be built) leave without a
  patch.
\<close>

definition Reconcile :: "'k cluster \<Rightarrow> 'k exit_state" where
  "Reconcile c =
     (case Client_Get c of
        NotFound \<Rightarrow>
          \<lparr>ex_result = Result_empty, ex_err = None, ex_panic = None, ex_instance = None,
           ex_lock = Lock c, ex_events = []\<rparr>
      | GetFailed err \<Rightarrow>
          \<lparr>ex_result = Result_empty, ex_err = Some err, ex_panic = None, ex_instance = None,
           ex_lock = Lock c, ex_events = []\<rparr>
      | Found fetched \<Rightarrow>
          (case NewHelper_ret c of
             Some err \<Rightarrow>
               \<lparr>ex_result = Result_empty, ex_err = Some err, ex_panic = None,
                ex_instance = Some fetched, ex_lock = Lock c, ex_events = []\<rparr>
           | None \<Rightarrow>
               (let isNewInstance = (Conditions fetched = None);
                    instance = (if isNewInstance then fetched\<lparr>Conditions := Some []\<rparr> else fetched);
                    savedConditions = conditions_of instance
                in Reconcile_deferred c savedConditions (Reconcile_body c instance isNewInstance))))"

subsection \<open>Observations on an exit\<close>

definition exit_conditions :: "'k exit_state \<Rightarrow> Condition list" where
  "exit_conditions ex = (case ex_instance ex of None \<Rightarrow> [] | Some instance \<Rightarrow> conditions_of instance)"

definition status_of :: "Condition list \<Rightarrow> ConditionType \<Rightarrow> ConditionStatus option" where
  "status_of conditions t = map_option Status (Get conditions t)"

fun is_CallCreatePod :: "'k event \<Rightarrow> bool" where
  "is_CallCreatePod (CallCreatePod _) = True"
| "is_CallCreatePod _ = False"

fun is_CallEnsureLogsPVCExists :: "'k event \<Rightarrow> bool" where
  "is_CallEnsureLogsPVCExists (CallEnsureLogsPVCExists _ _) = True"
| "is_CallEnsureLogsPVCExists _ = False"


subsection \<open>Example inputs\<close>

definition example_step :: "unit AnsibleTestWorkflowSpec" where
  "example_step =
     \<lparr>wf_WorkloadSSHKeySecretName = [], wf_ComputesSSHKeySecretName = [],
      wf_ContainerImage = ''custom:v2'', wf_Debug = None, wf_AnsibleExtraVars = [],
      wf_AnsibleVarFiles = [], wf_AnsibleInventory = [], wf_AnsibleGitRepo = [],
      wf_AnsiblePlaybookPath = [], wf_AnsibleCollections = [], wf_Privileged = Some True,
      wf_NodeSelector = None, wf_Tolerations = None, wf_SELinuxLevel = None,
      wf_Resources = None\<rparr>"

definition example_spec :: "unit AnsibleTestSpec" where
  "example_spec =
     \<lparr>WorkloadSSHKeySecretName = ''workload-key'', ComputesSSHKeySecretName = ''computes-key'',
      ContainerImage = ''default:v1'', Debug = True, AnsibleExtraVars = [],
      AnsibleVarFiles = [], AnsibleInventory = [], AnsibleGitRepo = [],
      AnsiblePlaybookPath = [], AnsibleCollections = [], Privileged = False,
      StorageClass = ''local'', NodeSelector = (), Tolerations = (), SELinuxLevel = (),
      Resources = (), Workflow = [example_step]\<rparr>"

text \<open>
  An instance that was reconciled before and waits at its initial conditions, and a
  cluster in which every helper succeeds: the lock is free, the next action is to create
  the first pod, the clock shows 7 and the requeue interval is 60.
\<close>

definition example_conditions :: "Condition list" where
  "example_conditions =
     [\<lparr>Type = ReadyCondition, Status = ConditionUnknown, Severity = SeverityNone,
       Reason = InitReason, Message = ReadyInitMessage, LastTransitionTime = 3\<rparr>,
      \<lparr>Type = ServiceConfigReadyCondition, Status = ConditionUnknown, Severity = SeverityNone,
       Reason = InitReason, Message = ServiceConfigReadyMessage, LastTransitionTime = 3\<rparr>,
      \<lparr>Type = DeploymentReadyCondition, Status = ConditionUnknown, Severity = SeverityNone,
       Reason = InitReason, Message = DeploymentReadyInitMessage, LastTransitionTime = 3\<rparr>]"

definition example_instance :: "unit AnsibleTest" where
  "example_instance =
     \<lparr>Name = ''ansibletest-sample'', Spec = example_spec, Conditions = Some example_conditions\<rparr>"

definition example_cluster :: "unit cluster" where
  "example_cluster =
     \<lparr>Client_Get = Found example_instance, NewHelper_ret = None, Now = 7,
      NextAction_ret = (CreateFirstPod, 0, None), Lock = None,
      AcquireLock_ret = (True, None), ReleaseLock_ret = (True, None),
      EnsureLogsPVCExists_ret = (Result_empty, None), CheckSecretExists_ret = False,
      GetPodName_ret = ''ansibletest-sample-s00'', GetPVCLogsName_ret = ''ansibletest-sample-logs'',
      GetContainerImage_ret = (''custom:v2'', None), CreatePod_ret = (Result_empty, None),
      PatchInstance_ret = None, RequeueAfterValue = 60\<rparr>"

text \<open>
  Variations of the example: all pods are done and the instance holds the lock; another
  instance holds the lock while this one, with two steps, wants to create a pod; the pod
  is rejected; the instance is seen for the first time; a completed instance whose pods
  were deleted runs again and its pod is rejected; the instance is gone.
\<close>

definition ending_cluster :: "unit cluster" where
  "ending_cluster =
     example_cluster\<lparr>NextAction_ret := (EndTesting, 0, None), Lock := Some ''ansibletest-sample''\<rparr>"

definition contended_cluster :: "FlowAction \<Rightarrow> int \<Rightarrow> unit cluster" where
  "contended_cluster a n =
     example_cluster
       \<lparr>Client_Get :=
          Found (example_instance\<lparr>Spec := example_spec\<lparr>Workflow := [example_step, example_step]\<rparr>\<rparr>),
        NextAction_ret := (a, n, None), Lock := Some ''another-instance'',
        AcquireLock_ret := (False, None)\<rparr>"

definition rejecting_cluster :: "unit cluster" where
  "rejecting_cluster =
     example_cluster\<lparr>CreatePod_ret := (Result_empty, Some (ApiError ''pod rejected''))\<rparr>"

definition first_seen_cluster :: "unit cluster" where
  "first_seen_cluster =
     example_cluster\<lparr>Client_Get := Found (example_instance\<lparr>Conditions := None\<rparr>)\<rparr>"

definition completed_conditions :: "Condition list" where
  "completed_conditions =
     [\<lparr>Type = ReadyCondition, Status = ConditionTrue, Severity = SeverityNone,
       Reason = ReadyReason, Message = ReadyMessage, LastTransitionTime = 5\<rparr>,
      \<lparr>Type = ServiceConfigReadyCondition, Status = ConditionTrue, Severity = SeverityNone,
       Reason = ReadyReason, Message = ServiceConfigReadyMessage, LastTransitionTime = 4\<rparr>,
      \<lparr>Type = DeploymentReadyCondition, Status = ConditionTrue, Severity = SeverityNone,
       Reason = ReadyReason, Message = DeploymentReadyMessage, LastTransitionTime = 5\<rparr>]"

definition rerun_cluster :: "unit cluster" where
  "rerun_cluster =
     rejecting_cluster\<lparr>Client_Get := Found (example_instance\<lparr>Conditions := Some completed_conditions\<rparr>)\<rparr>"

text \<open>
  The same completed instance when its pod is created again without trouble, and the
  invocation that follows once the new pod is done, with a release that times out: it
  starts from the instance and the lock the first invocation left.
\<close>

definition rerun_created_cluster :: "unit cluster" where
  "rerun_created_cluster =
     example_cluster\<lparr>Client_Get := Found (example_instance\<lparr>Conditions := Some completed_conditions\<rparr>)\<rparr>"

definition rerun_ending_cluster :: "unit cluster" where
  "rerun_ending_cluster =
     example_cluster
       \<lparr>Client_Get :=
          (case ex_instance (Reconcile rerun_created_cluster) of
             None \<Rightarrow> NotFound | Some instance \<Rightarrow> Found instance),
        Lock := ex_lock (Reconcile rerun_created_cluster),
        NextAction_ret := (EndTesting, 0, None),
        ReleaseLock_ret := (False, Some (ApiError ''timeout''))\<rparr>"

definition not_found_cluster :: "unit cluster" where
  "not_found_cluster = example_cluster\<lparr>Client_Get := NotFound\<rparr>"




section \<open>Properties of the resolver\<close>

lemmas resolver_defs =
  OverwriteAnsibleWithWorkflow_def FieldByName_Spec_def FieldByName_Workflow_def




















section \<open>Properties of the status conditions\<close>

lemma find_map_same:
  assumes "\<And>x. P (f x) = P x"
  shows "find P (map f xs) = map_option f (find P xs)"
  using assms by (induction xs) simp_all

lemma find_append_one:
  "find P (xs @ [y]) = (case find P xs of None \<Rightarrow> (if P y then Some y else None) | Some x \<Rightarrow> Some x)"
  by (induction xs) simp_all

lemma Get_Nil [simp]: "Get [] t = None"
  by (simp add: Get_def)

lemma Type_stamp [simp]: "Type (stamp now existing c) = Type c"
  by (simp add: stamp_def)

lemma Status_stamp [simp]: "Status (stamp now existing c) = Status c"
  by (simp add: stamp_def)

lemma Reason_stamp [simp]: "Reason (stamp now existing c) = Reason c"
  by (simp add: stamp_def)

lemma Message_stamp [simp]: "Message (stamp now existing c) = Message c"
  by (simp add: stamp_def)

lemma Severity_stamp [simp]: "Severity (stamp now existing c) = Severity c"
  by (simp add: stamp_def)

lemma Type_restore_time [simp]: "Type (restore_time saved c) = Type c"
  by (simp add: restore_time_def split: option.splits)

lemma Status_restore_time [simp]: "Status (restore_time saved c) = Status c"
  by (simp add: restore_time_def split: option.splits)

lemma Reason_restore_time [simp]: "Reason (restore_time saved c) = Reason c"
  by (simp add: restore_time_def split: option.splits)

lemma Message_restore_time [simp]: "Message (restore_time saved c) = Message c"
  by (simp add: restore_time_def split: option.splits)

lemma Severity_restore_time [simp]: "Severity (restore_time saved c) = Severity c"
  by (simp add: restore_time_def split: option.splits)

lemma Get_Type: "Get cs t = Some c \<Longrightarrow> Type c = t"
  unfolding Get_def by (induction cs) (auto split: if_splits)

lemma Get_Set_other:
  assumes "Type c \<noteq> t"
  shows "Get (Set now c cs) t = Get cs t"
proof (cases "Get cs (Type c)")
  case None
  with assms show ?thesis
    by (simp add: Set_def Get_def find_append_one split: option.splits)
next
  case (Some e)
  have "find (\<lambda>x. Type x = t) (map (\<lambda>existing. if Type existing = Type c then stamp now existing c else existing) cs)
          = find (\<lambda>x. Type x = t) cs"
    using assms by (induction cs) auto
  with Some show ?thesis by (simp add: Set_def Get_def)
qed

lemma Get_Set_same:
  "\<exists>c'. Get (Set now c cs) (Type c) = Some c' \<and> Type c' = Type c \<and> Status c' = Status c \<and>
        Severity c' = Severity c \<and> Reason c' = Reason c \<and> Message c' = Message c \<and>
        LastTransitionTime c' =
          (case Get cs (Type c) of
             None \<Rightarrow> now
           | Some e \<Rightarrow> if Status e = Status c then LastTransitionTime e else now)"
proof (cases "Get cs (Type c)")
  case None
  then show ?thesis
    by (simp add: Set_def Get_def find_append_one)
next
  case (Some e)
  have "\<And>e. find (\<lambda>x. Type x = Type c) cs = Some e \<Longrightarrow>
        find (\<lambda>x. Type x = Type c) (map (\<lambda>existing. if Type existing = Type c then stamp now existing c else existing) cs)
          = Some (stamp now e c)"
    by (induction cs) (auto split: if_splits)
  with Some show ?thesis by (auto simp: Set_def Get_def stamp_def)
qed

lemma Get_Restore:
  "Get (RestoreLastTransitionTimes cs saved) t = map_option (restore_time saved) (Get cs t)"
  by (simp add: RestoreLastTransitionTimes_def Get_def find_map_same)

lemma restore_time_self:
  assumes "Get cs t = Some d"
  shows "restore_time cs d = d"
  using assms Get_Type[OF assms] by (simp add: restore_time_def)







lemma Type_Mirror: "Mirror cs t = Some m \<Longrightarrow> Type m = t"
  by (auto simp: Mirror_def split: option.splits)


subsection \<open>The deferred function on the conditions\<close>

lemma deferred_Get_other:
  assumes "t \<noteq> ReadyCondition"
  shows "Get (deferred_conditions now saved cs) t = map_option (restore_time saved) (Get cs t)"
proof -
  have m: "\<And>xs. Get (MarkTrue now ReadyCondition ReadyMessage xs) t = Get xs t"
    using assms by (simp add: MarkTrue_def Get_Set_other TrueCondition_def)
  have s: "\<And>xs m. Mirror xs ReadyCondition = Some m \<Longrightarrow> Get (Set now m xs) t = Get xs t"
    using assms Type_Mirror Get_Set_other by metis
  show ?thesis
    unfolding deferred_conditions_def Let_def
    by (simp add: s m Get_Restore split: option.splits)
qed

lemma deferred_keeps_untouched:
  assumes "t \<noteq> ReadyCondition"
  shows "Get (deferred_conditions now cs cs) t = Get cs t"
  using deferred_Get_other[OF assms, of now cs cs]
  by (cases "Get cs t") (simp_all add: restore_time_self)









section \<open>Properties of the driver\<close>

lemmas example_defs =
  example_cluster_def example_instance_def example_spec_def example_step_def
  example_conditions_def ending_cluster_def contended_cluster_def rejecting_cluster_def
  first_seen_cluster_def not_found_cluster_def completed_conditions_def rerun_cluster_def
  rerun_created_cluster_def rerun_ending_cluster_def

lemmas driver_defs =
  Reconcile_def Reconcile_body_def Reconcile_create_def Reconcile_submit_def
  Reconcile_deferred_def exit_with_def panic_with_def AcquireLock_def ReleaseLock_def
  with_conditions_def conditions_of_def exit_conditions_def Result_empty_def Let_def

lemmas condition_defs =
  deferred_conditions_def AllSubConditionIsTrue_def IsUnknown_def Mirror_def
  first_not_ready_def RestoreLastTransitionTimes_def restore_time_def Set_def stamp_def
  MarkTrue_def Init_def Get_def TrueCondition_def FalseCondition_def UnknownCondition_def
  status_of_def

lemma exit_conditions_exit_with [simp]:
  "exit_conditions (exit_with res e i l evs) = conditions_of i"
  by (simp add: exit_conditions_def exit_with_def)

lemma exit_conditions_panic_with [simp]:
  "exit_conditions (panic_with p i l evs) = conditions_of i"
  by (simp add: exit_conditions_def panic_with_def)

lemma conditions_of_with_conditions [simp]:
  "conditions_of (with_conditions f i) = f (conditions_of i)"
  by (simp add: conditions_of_def with_conditions_def)

lemma conditions_of_Spec_update [simp]:
  "conditions_of (i\<lparr>Spec := s\<rparr>) = conditions_of i"
  by (simp add: conditions_of_def)

lemma Spec_with_conditions [simp]: "Spec (with_conditions f i) = Spec i"
  by (simp add: with_conditions_def)

lemma Name_with_conditions [simp]: "Name (with_conditions f i) = Name i"
  by (simp add: with_conditions_def)









lemma exit_conditions_deferred:
  assumes "ex_instance ex = Some i"
  shows "exit_conditions (Reconcile_deferred c saved ex)
           = deferred_conditions (Now c) saved (exit_conditions ex)"
  using assms by (simp add: Reconcile_deferred_def exit_conditions_def Let_def)

lemma Reconcile_deferred_fields:
  assumes "ex_instance ex = Some i"
  shows "ex_result (Reconcile_deferred c saved ex) = ex_result ex"
    and "ex_lock (Reconcile_deferred c saved ex) = ex_lock ex"
    and "ex_panic (Reconcile_deferred c saved ex) = ex_panic ex"
    and "ex_err (Reconcile_deferred c saved ex)
           = (case PatchInstance_ret c of Some e \<Rightarrow> Some e | None \<Rightarrow> ex_err ex)"
    and "\<exists>i'. ex_instance (Reconcile_deferred c saved ex) = Some i' \<and> Spec i' = Spec i \<and>
              Name i' = Name i \<and>
              ex_events (Reconcile_deferred c saved ex) = ex_events ex @ [CallPatchInstance i']"
  using assms by (simp_all add: Reconcile_deferred_def Let_def)

lemma Reconcile_deferred_exit_with:
  "Reconcile_deferred c saved (exit_with res e i lock evs) =
     \<lparr>ex_result = res,
      ex_err = (case PatchInstance_ret c of Some pe \<Rightarrow> Some pe | None \<Rightarrow> e),
      ex_panic = None,
      ex_instance = Some (with_conditions (deferred_conditions (Now c) saved) i),
      ex_lock = lock,
      ex_events = evs @ [CallPatchInstance (with_conditions (deferred_conditions (Now c) saved) i)]\<rparr>"
  by (cases "PatchInstance_ret c") (simp_all add: Reconcile_deferred_def exit_with_def Let_def)

lemma Reconcile_found:
  assumes "Client_Get c = Found fetched" and "NewHelper_ret c = None"
    and "Conditions fetched = Some cs"
  shows "Reconcile c = Reconcile_deferred c cs (Reconcile_body c fetched False)"
  using assms by (simp add: Reconcile_def Let_def conditions_of_def)









text \<open>
  C5 (as amended). On the action EndTesting the release of the lock is the first call of
  the invocation, before the patch that makes the conditions visible. When the release
  is not reported, the result is a requeue after the fixed interval, DeploymentReady is
  exactly what it was on entry and the lock record is untouched. Only when the release is
  reported is DeploymentReady set to True, and the lock is then absent. So the
  invocation never turns DeploymentReady True while the instance still owns the lock,
  and when DeploymentReady is not True with the lock owned on entry, it is not at the
  exit.
\<close>

theorem EndTesting_release_before_ready:
  assumes "Client_Get c = Found fetched" and "NewHelper_ret c = None"
    and "Conditions fetched = Some cs"
    and "NextAction_ret c = (EndTesting, n, e)"
  shows "(\<exists>i'. ex_instance (Reconcile c) = Some i' \<and>
            ex_events (Reconcile c) =
              [CallReleaseLock,
               LogInfo (if fst (ReleaseLock_ret c) then InfoTestingCompleted
                        else InfoCanNotReleaseLock),
               CallPatchInstance i']) \<and>
         (\<not> fst (ReleaseLock_ret c) \<longrightarrow>
            ex_result (Reconcile c) = \<lparr>Requeue = False, RequeueAfter = RequeueAfterValue c\<rparr> \<and>
            Get (exit_conditions (Reconcile c)) DeploymentReadyCondition
              = Get cs DeploymentReadyCondition \<and>
            ex_lock (Reconcile c) = Lock c) \<and>
         (fst (ReleaseLock_ret c) \<longrightarrow>
            status_of (exit_conditions (Reconcile c)) DeploymentReadyCondition
              = Some ConditionTrue \<and>
            ex_result (Reconcile c) = Result_empty \<and>
            ex_lock (Reconcile c) = None) \<and>
         (ex_lock (Reconcile c) = Some (Name fetched) \<longrightarrow>
            Get (exit_conditions (Reconcile c)) DeploymentReadyCondition
              = Get cs DeploymentReadyCondition) \<and>
         ((status_of cs DeploymentReadyCondition = Some ConditionTrue \<longrightarrow>
             Lock c \<noteq> Some (Name fetched)) \<longrightarrow>
          (status_of (exit_conditions (Reconcile c)) DeploymentReadyCondition
             = Some ConditionTrue \<longrightarrow>
             ex_lock (Reconcile c) \<noteq> Some (Name fetched)))"
proof (cases "fst (ReleaseLock_ret c)")
  case True
  let ?b = "exit_with Result_empty None
              (with_conditions (MarkTrue (Now c) DeploymentReadyCondition DeploymentReadyMessage) fetched)
              None [CallReleaseLock, LogInfo InfoTestingCompleted]"
  have body: "Reconcile_body c fetched False = ?b"
    using True assms(4) by (cases "ReleaseLock_ret c") (simp add: Reconcile_body_def ReleaseLock_def)
  have r: "Reconcile c = Reconcile_deferred c cs ?b"
    using Reconcile_found[OF assms(1-3)] body by simp
  have inst: "ex_instance ?b = Some (with_conditions (MarkTrue (Now c) DeploymentReadyCondition DeploymentReadyMessage) fetched)"
    by (simp add: exit_with_def)
  have cs: "conditions_of fetched = cs" using assms(3) by (simp add: conditions_of_def)
  have "exit_conditions (Reconcile c)
          = deferred_conditions (Now c) cs (MarkTrue (Now c) DeploymentReadyCondition DeploymentReadyMessage cs)"
    using exit_conditions_deferred[OF inst] r cs by simp
  moreover
  obtain d where "Get (MarkTrue (Now c) DeploymentReadyCondition DeploymentReadyMessage cs)
                    DeploymentReadyCondition = Some d" "Status d = ConditionTrue"
    using Get_Set_same[of "Now c" "TrueCondition DeploymentReadyCondition DeploymentReadyMessage" cs]
    by (auto simp: MarkTrue_def TrueCondition_def)
  ultimately have st: "status_of (exit_conditions (Reconcile c)) DeploymentReadyCondition
                         = Some ConditionTrue"
    by (simp add: status_of_def deferred_Get_other)
  from Reconcile_deferred_fields[OF inst, of c cs] r True st
  show ?thesis by (auto simp: exit_with_def)
next
  case False
  let ?b = "exit_with \<lparr>Requeue = False, RequeueAfter = RequeueAfterValue c\<rparr>
              (snd (ReleaseLock_ret c)) fetched (Lock c)
              [CallReleaseLock, LogInfo InfoCanNotReleaseLock]"
  have body: "Reconcile_body c fetched False = ?b"
    using False assms(4) by (cases "ReleaseLock_ret c") (simp add: Reconcile_body_def ReleaseLock_def)
  have r: "Reconcile c = Reconcile_deferred c cs ?b"
    using Reconcile_found[OF assms(1-3)] body by simp
  have inst: "ex_instance ?b = Some fetched"
    by (simp add: exit_with_def)
  have cs: "conditions_of fetched = cs" using assms(3) by (simp add: conditions_of_def)
  have "exit_conditions (Reconcile c) = deferred_conditions (Now c) cs cs"
    using exit_conditions_deferred[OF inst] r cs by simp
  then have keep: "Get (exit_conditions (Reconcile c)) DeploymentReadyCondition
                = Get cs DeploymentReadyCondition"
    by (simp add: deferred_keeps_untouched)
  from Reconcile_deferred_fields[OF inst, of c cs] r False keep
  show ?thesis by (auto simp: exit_with_def status_of_def)
qed

theorem EndTesting_release_before_ready_witness:
  "Client_Get ending_cluster = Found example_instance \<and>
   NewHelper_ret ending_cluster = None \<and>
   Conditions example_instance = Some example_conditions \<and>
   NextAction_ret ending_cluster = (EndTesting, 0, None) \<and>
   fst (ReleaseLock_ret ending_cluster) \<and>
   status_of (exit_conditions (Reconcile ending_cluster)) DeploymentReadyCondition
     = Some ConditionTrue \<and>
   ex_lock (Reconcile ending_cluster) = None \<and>
   \<not> fst (ReleaseLock_ret (ending_cluster\<lparr>ReleaseLock_ret := (False, Some (ApiError ''timeout''))\<rparr>)) \<and>
   ex_result (Reconcile (ending_cluster\<lparr>ReleaseLock_ret := (False, Some (ApiError ''timeout''))\<rparr>))
     = \<lparr>Requeue = False, RequeueAfter = 60\<rparr> \<and>
   ex_lock (Reconcile (ending_cluster\<lparr>ReleaseLock_ret := (False, Some (ApiError ''timeout''))\<rparr>))
     = Some (Name example_instance) \<and>
   Get (exit_conditions (Reconcile (ending_cluster\<lparr>ReleaseLock_ret := (False, Some (ApiError ''timeout''))\<rparr>)))
       DeploymentReadyCondition
     = Get example_conditions DeploymentReadyCondition"
proof -
  let ?c = "ending_cluster\<lparr>ReleaseLock_ret := (False, Some (ApiError ''timeout''))\<rparr>"
  have h: "Client_Get ending_cluster = Found example_instance"
    "NewHelper_ret ending_cluster = None"
    "Conditions example_instance = Some example_conditions"
    "NextAction_ret ending_cluster = (EndTesting, 0, None)"
    "fst (ReleaseLock_ret ending_cluster)"
    by (simp_all add: ending_cluster_def example_cluster_def example_instance_def)
  have k: "Client_Get ?c = Found example_instance" "NewHelper_ret ?c = None"
    "NextAction_ret ?c = (EndTesting, 0, None)" "\<not> fst (ReleaseLock_ret ?c)"
    "RequeueAfterValue ?c = 60" "Lock ?c = Some (Name example_instance)"
    by (simp_all add: ending_cluster_def example_cluster_def example_instance_def)
  from EndTesting_release_before_ready[OF h(1-4)] h(5)
  have a: "status_of (exit_conditions (Reconcile ending_cluster)) DeploymentReadyCondition
             = Some ConditionTrue" "ex_lock (Reconcile ending_cluster) = None"
    by blast+
  from EndTesting_release_before_ready[OF k(1,2) h(3) k(3)] k(4)
  have b: "ex_result (Reconcile ?c) = \<lparr>Requeue = False, RequeueAfter = RequeueAfterValue ?c\<rparr>"
    "ex_lock (Reconcile ?c) = Lock ?c"
    "Get (exit_conditions (Reconcile ?c)) DeploymentReadyCondition
       = Get example_conditions DeploymentReadyCondition"
    by blast+
  from h k(4) a b show ?thesis by (simp only: k(5,6)) simp
qed

text \<open>
  C5 as stated fails in its last clause: DeploymentReady can be True while the instance
  owns the lock. A completed instance whose pod was deleted creates it again and takes
  the lock while DeploymentReady is still True from the first run. When the new pod is
  done and the release times out, the action EndTesting leaves with DeploymentReady True
  and the lock still owned.
\<close>

theorem stale_DeploymentReady_with_lock_counterexample:
  "status_of (conditions_of (example_instance\<lparr>Conditions := Some completed_conditions\<rparr>))
      DeploymentReadyCondition = Some ConditionTrue \<and>
   Lock rerun_created_cluster = None \<and>
   NextAction_ret rerun_created_cluster = (CreateFirstPod, 0, None) \<and>
   status_of (exit_conditions (Reconcile rerun_created_cluster)) DeploymentReadyCondition
     = Some ConditionTrue \<and>
   ex_lock (Reconcile rerun_created_cluster) = Some ''ansibletest-sample'' \<and>
   NextAction_ret rerun_ending_cluster = (EndTesting, 0, None) \<and>
   Lock rerun_ending_cluster = Some ''ansibletest-sample'' \<and>
   status_of (exit_conditions (Reconcile rerun_ending_cluster)) DeploymentReadyCondition
     = Some ConditionTrue \<and>
   ex_lock (Reconcile rerun_ending_cluster) = Some ''ansibletest-sample''"
proof -
  let ?all = "[\<lparr>Type = ReadyCondition, Status = ConditionTrue, Severity = SeverityNone,
          Reason = ReadyReason, Message = ReadyMessage, LastTransitionTime = 5\<rparr>,
         \<lparr>Type = ServiceConfigReadyCondition, Status = ConditionTrue, Severity = SeverityNone,
          Reason = ReadyReason, Message = ServiceConfigReadyMessage, LastTransitionTime = 4\<rparr>,
         \<lparr>Type = DeploymentReadyCondition, Status = ConditionTrue, Severity = SeverityNone,
          Reason = ReadyReason, Message = DeploymentReadyMessage, LastTransitionTime = 5\<rparr>]"
  have first: "ex_instance (Reconcile rerun_created_cluster)
                 = Some (example_instance\<lparr>Conditions := Some ?all\<rparr>)"
    "ex_lock (Reconcile rerun_created_cluster) = Some ''ansibletest-sample''"
    by (simp_all add: example_defs driver_defs condition_defs PrepareAnsibleEnv_def bind_panic_def
        assert_string_def assert_bool_def resolver_defs overwrite_placement_def)
  have c2: "rerun_ending_cluster =
     example_cluster
       \<lparr>Client_Get := Found (example_instance\<lparr>Conditions := Some ?all\<rparr>),
        Lock := Some ''ansibletest-sample'',
        NextAction_ret := (EndTesting, 0, None),
        ReleaseLock_ret := (False, Some (ApiError ''timeout''))\<rparr>"
    unfolding rerun_ending_cluster_def first by simp
  have second: "exit_conditions (Reconcile rerun_ending_cluster) = ?all"
    "ex_lock (Reconcile rerun_ending_cluster) = Some ''ansibletest-sample''"
    unfolding c2
    by (simp_all add: example_cluster_def example_instance_def example_spec_def example_step_def
        driver_defs condition_defs)
  have one: "exit_conditions (Reconcile rerun_created_cluster) = ?all"
    using first(1) by (simp add: exit_conditions_def conditions_of_def)
  have zero: "status_of (conditions_of (example_instance\<lparr>Conditions := Some completed_conditions\<rparr>))
      DeploymentReadyCondition = Some ConditionTrue"
    by (simp add: conditions_of_def completed_conditions_def status_of_def Get_def)
  have k: "Lock rerun_created_cluster = None"
    "NextAction_ret rerun_created_cluster = (CreateFirstPod, 0, None)"
    "NextAction_ret rerun_ending_cluster = (EndTesting, 0, None)"
    "Lock rerun_ending_cluster = Some ''ansibletest-sample''"
    unfolding c2 by (simp_all add: rerun_created_cluster_def example_cluster_def)
  from zero k first(2) second show ?thesis
    unfolding one by (simp add: status_of_def Get_def)
qed




text \<open>
  C7 (as amended). When the lock is not reported acquired, both creation actions end the
  invocation in the same way: the result is a requeue after the fixed interval, and the
  error is the one \<^verbatim>\<open>AcquireLock\<close> returned (none on plain contention), unless the patch
  of the status fails. They differ in the log only: CreateFirstPod logs an information,
  CreateNextPod logs the loss of ownership as an error. In both cases no pod is created
  and the lock record is untouched.
\<close>

theorem lock_not_acquired_requeues:
  assumes "Client_Get c = Found fetched" and "NewHelper_ret c = None"
    and "Conditions fetched = Some cs"
    and "NextAction_ret c = (a, n, e)" and "a = CreateFirstPod \<or> a = CreateNextPod"
    and "\<not> fst (AcquireLock_ret c)"
  shows "ex_result (Reconcile c) = \<lparr>Requeue = False, RequeueAfter = RequeueAfterValue c\<rparr> \<and>
         ex_err (Reconcile c)
           = (case PatchInstance_ret c of Some pe \<Rightarrow> Some pe | None \<Rightarrow> snd (AcquireLock_ret c)) \<and>
         (\<exists>i'. ex_events (Reconcile c) =
                 [CallAcquireLock,
                  (if a = CreateFirstPod then LogInfo InfoCanNotAcquireLock
                   else LogError (snd (AcquireLock_ret c)) ErrConfirmLockOwnership),
                  CallPatchInstance i']) \<and>
         \<not> list_ex is_CallCreatePod (ex_events (Reconcile c)) \<and>
         ex_lock (Reconcile c) = Lock c"
proof -
  let ?b = "exit_with \<lparr>Requeue = False, RequeueAfter = RequeueAfterValue c\<rparr>
              (snd (AcquireLock_ret c)) fetched (Lock c)
              [CallAcquireLock,
               (if a = CreateFirstPod then LogInfo InfoCanNotAcquireLock
                else LogError (snd (AcquireLock_ret c)) ErrConfirmLockOwnership)]"
  have body: "Reconcile_body c fetched False = ?b"
    using assms(4-6)
    by (cases "AcquireLock_ret c") (auto simp: Reconcile_body_def AcquireLock_def)
  have r: "Reconcile c = Reconcile_deferred c cs ?b"
    using Reconcile_found[OF assms(1-3)] body by simp
  show ?thesis
    unfolding r Reconcile_deferred_exit_with by simp
qed

theorem lock_not_acquired_requeues_witness:
  "NewHelper_ret (contended_cluster CreateNextPod 1) = None \<and>
   NextAction_ret (contended_cluster CreateNextPod 1) = (CreateNextPod, 1, None) \<and>
   \<not> fst (AcquireLock_ret (contended_cluster CreateNextPod 1)) \<and>
   ex_result (Reconcile (contended_cluster CreateNextPod 1))
     = \<lparr>Requeue = False, RequeueAfter = 60\<rparr> \<and>
   ex_err (Reconcile (contended_cluster CreateNextPod 1)) = None \<and>
   \<not> list_ex is_CallCreatePod (ex_events (Reconcile (contended_cluster CreateNextPod 1))) \<and>
   ex_lock (Reconcile (contended_cluster CreateNextPod 1)) = Some ''another-instance'' \<and>
   NextAction_ret (contended_cluster CreateFirstPod 0) = (CreateFirstPod, 0, None) \<and>
   \<not> fst (AcquireLock_ret (contended_cluster CreateFirstPod 0)) \<and>
   ex_result (Reconcile (contended_cluster CreateFirstPod 0))
     = \<lparr>Requeue = False, RequeueAfter = 60\<rparr> \<and>
   \<not> list_ex is_CallCreatePod (ex_events (Reconcile (contended_cluster CreateFirstPod 0)))"
proof -
  let ?i = "example_instance\<lparr>Spec := example_spec\<lparr>Workflow := [example_step, example_step]\<rparr>\<rparr>"
  let ?c = "contended_cluster CreateNextPod 1"
  let ?d = "contended_cluster CreateFirstPod 0"
  have i: "Conditions ?i = Some example_conditions"
    by (simp add: example_instance_def)
  have h: "Client_Get ?c = Found ?i" "NewHelper_ret ?c = None"
    "NextAction_ret ?c = (CreateNextPod, 1, None)"
    "CreateNextPod = CreateFirstPod \<or> CreateNextPod = CreateNextPod"
    "\<not> fst (AcquireLock_ret ?c)"
    by (simp_all add: contended_cluster_def example_cluster_def)
  have g: "Client_Get ?d = Found ?i" "NewHelper_ret ?d = None"
    "NextAction_ret ?d = (CreateFirstPod, 0, None)"
    "CreateFirstPod = CreateFirstPod \<or> CreateFirstPod = CreateNextPod"
    "\<not> fst (AcquireLock_ret ?d)"
    by (simp_all add: contended_cluster_def example_cluster_def)
  have k: "RequeueAfterValue ?c = 60" "Lock ?c = Some ''another-instance''"
    "PatchInstance_ret ?c = None" "snd (AcquireLock_ret ?c) = None"
    "RequeueAfterValue ?d = 60"
    by (simp_all add: contended_cluster_def example_cluster_def)
  from lock_not_acquired_requeues[OF h(1,2) i h(3-5)]
    lock_not_acquired_requeues[OF g(1,2) i g(3-5)] h(2,3,5) g(3,5)
  show ?thesis
    by (simp add: k)
qed

text \<open>
  C7 as stated fails: with the lock held by another instance and no error from
  \<^verbatim>\<open>AcquireLock\<close>, the action CreateNextPod returns no error but the same requeue after
  the fixed interval that CreateFirstPod returns.
\<close>

theorem lost_lock_requeues_without_error_counterexample:
  "NextAction_ret (contended_cluster CreateNextPod 1) = (CreateNextPod, 1, None) \<and>
   AcquireLock_ret (contended_cluster CreateNextPod 1) = (False, None) \<and>
   ex_err (Reconcile (contended_cluster CreateNextPod 1)) = None \<and>
   ex_panic (Reconcile (contended_cluster CreateNextPod 1)) = None \<and>
   ex_result (Reconcile (contended_cluster CreateNextPod 1))
     = \<lparr>Requeue = False, RequeueAfter = 60\<rparr> \<and>
   ex_result (Reconcile (contended_cluster CreateNextPod 1))
     = ex_result (Reconcile (contended_cluster CreateFirstPod 0)) \<and>
   ex_err (Reconcile (contended_cluster CreateNextPod 1))
     = ex_err (Reconcile (contended_cluster CreateFirstPod 0))"
  by (simp add: example_defs driver_defs)









end
